theory Spec2Isabelle
  imports Main
begin

section \<open>DOM values\<close>

text \<open>
  The source compares and dereferences values that may be an element, \<open>null\<close> or
  \<open>undefined\<close>. The two absent values are different under \<open>===\<close>, and the difference
  decides what \<open>handleKeyPress\<close> does on an empty node list, so both are kept.
  A value typed \<open>T | null\<close> in the source (\<open>document.activeElement\<close>, the \<open>current\<close> field
  of a ref created with \<open>useRef(null)\<close>) is an \<open>'e option\<close>, with \<open>None\<close> for \<open>null\<close>.
\<close>

datatype 'e js = Undefined | Null | Elem 'e

datatype error = TypeError

fun of_nullable :: "'e option \<Rightarrow> 'e js" where
  "of_nullable None = Null"
| "of_nullable (Some e) = Elem e"

text \<open>\<open>nodeList[i]\<close>: the element at an index in range, \<open>undefined\<close> otherwise
  (also at index \<open>-1\<close>, which is what \<open>length - 1\<close> is on an empty list).\<close>

definition item :: "'e list \<Rightarrow> int \<Rightarrow> 'e js" where
  "item xs i = (if 0 \<le> i \<and> i < int (length xs) then Elem (xs ! nat i) else Undefined)"

fun truthy :: "'e js \<Rightarrow> bool" where
  "truthy (Elem e) = True"
| "truthy Null = False"
| "truthy Undefined = False"

text \<open>The document: the element that holds the focus, and the elements that can take
  it now, that is, those attached to the document, not disabled and not hidden. The node
  list of a FocusLock is a snapshot taken by \<open>querySelectorAll\<close>, so a member of it may
  have left that set since.\<close>

record 'e document =
  activeElement :: "'e option"
  focusable :: "'e set"

text \<open>\<open>x.focus()\<close> on a value that is not an element is a TypeError. On an element
  that can take the focus it makes that element the active element of the document; on
  any other element it does nothing.\<close>

fun focus :: "'e js \<Rightarrow> 'e document \<Rightarrow> error + 'e document" where
  "focus (Elem e) d = Inr (if e \<in> focusable d then d\<lparr>activeElement := Some e\<rparr> else d)"
| "focus Null d = Inl TypeError"
| "focus Undefined d = Inl TypeError"

text \<open>\<open>x?.focus()\<close>: skipped when \<open>x\<close> is \<open>null\<close> or \<open>undefined\<close>.\<close>

fun focus_opt :: "'e js \<Rightarrow> 'e document \<Rightarrow> 'e document" where
  "focus_opt (Elem e) d = (if e \<in> focusable d then d\<lparr>activeElement := Some e\<rparr> else d)"
| "focus_opt Null d = d"
| "focus_opt Undefined d = d"

record KeyboardEvent =
  key :: string
  shiftKey :: bool
  defaultPrevented :: bool

definition preventDefault :: "KeyboardEvent \<Rightarrow> KeyboardEvent" where
  "preventDefault ev = ev\<lparr>defaultPrevented := True\<rparr>"

section \<open>FocusLock\<close>

text \<open>The props of \<open>FocusLock\<close> (FocusLock.tsx, lines 6-23). An optional ref prop is
  \<open>None\<close> when it is not passed and \<open>Some c\<close> when it is, \<open>c\<close> being the ref's \<open>current\<close>
  field at the time the effect reads it.\<close>

record 'e FocusLockProps =
  isLocked :: bool
  autoFocusOnMount :: bool
  returnFocusOnClose :: bool
  initialFocusRef :: "'e option option"
  finalFocusRef :: "'e option option"

text \<open>The three refs of an instance (lines 24-26). \<open>focusableItems\<close> starts
  \<open>undefined\<close> (\<open>None\<close>) and holds a node list once \<open>updateFocusableItems\<close> has run on
  a mounted root.\<close>

record 'e FocusLockRefs =
  rootNode :: "'e option"
  focusableItems :: "'e list option"
  returnFocusNode :: "'e option"

text \<open>\<open>updateFocusableItems\<close> (lines 30-37); \<open>query\<close> is what
  \<open>querySelectorAll(FOCUSABLE_ELEMENTS.join(", "))\<close> returns on a root.\<close>

definition updateFocusableItems :: "('e \<Rightarrow> 'e list) \<Rightarrow> 'e FocusLockRefs \<Rightarrow> 'e FocusLockRefs" where
  "updateFocusableItems query r =
     (case rootNode r of
        Some root \<Rightarrow> r\<lparr>focusableItems := Some (query root)\<rparr>
      | None \<Rightarrow> r)"

text \<open>\<open>handleKeyPress\<close> (lines 70-100). \<open>locked\<close> is the \<open>isLocked\<close> the closure
  captured. The result is the event and the document after the handler, or the error
  it throws.\<close>

definition handleKeyPress ::
  "bool \<Rightarrow> 'e list option \<Rightarrow> KeyboardEvent \<Rightarrow> 'e document \<Rightarrow> error + (KeyboardEvent \<times> 'e document)" where
  "handleKeyPress locked items ev d =
     (case items of
        None \<Rightarrow> Inr (ev, d)
      | Some xs \<Rightarrow>
          (let len = int (length xs);
               firstItem = item xs 0;
               lastItem = item xs (len - 1)
           in if locked \<and> key ev = ''Tab'' then
                if len = 1 then Inr (preventDefault ev, d)
                else if \<not> shiftKey ev \<and> of_nullable (activeElement d) = lastItem then
                  (case focus firstItem d of
                     Inl e \<Rightarrow> Inl e
                   | Inr d' \<Rightarrow> Inr (preventDefault ev, d'))
                else if shiftKey ev \<and> of_nullable (activeElement d) = firstItem then
                  (case focus lastItem d of
                     Inl e \<Rightarrow> Inl e
                   | Inr d' \<Rightarrow> Inr (preventDefault ev, d'))
                else Inr (ev, d)
              else Inr (ev, d)))"

text \<open>The body of the second effect (lines 53-62): capture of the return target and
  the initial focus.\<close>

definition activateCapture ::
  "'e FocusLockProps \<Rightarrow> 'e FocusLockRefs \<times> 'e document \<Rightarrow> 'e FocusLockRefs \<times> 'e document" where
  "activateCapture p s =
     (case s of (r, d) \<Rightarrow>
        if autoFocusOnMount p then
          (let r' = r\<lparr>returnFocusNode :=
                       (case finalFocusRef p of
                          Some (Some e) \<Rightarrow> Some e
                        | Some None \<Rightarrow> activeElement d
                        | None \<Rightarrow> activeElement d)\<rparr>
           in case initialFocusRef p of
                Some c \<Rightarrow> (r', focus_opt (of_nullable c) d)
              | None \<Rightarrow>
                  (case focusableItems r' of
                     None \<Rightarrow> (r', d)
                   | Some xs \<Rightarrow> (r', focus_opt (item xs 0) d)))
        else (r, d))"

text \<open>The cleanup of the second effect (lines 63-65).\<close>

definition releaseCapture ::
  "'e FocusLockProps \<Rightarrow> 'e FocusLockRefs \<times> 'e document \<Rightarrow> 'e FocusLockRefs \<times> 'e document" where
  "releaseCapture p s =
     (case s of (r, d) \<Rightarrow>
        if returnFocusOnClose p then (r, focus_opt (of_nullable (returnFocusNode r)) d)
        else (r, d))"

section \<open>FocusLock lifecycle\<close>

text \<open>
  The resources an instance acquires live outside it: the keydown listeners registered
  on \<open>window\<close> and the connected mutation observers. A listener or an observer is
  known by its identity (the function or object the effect created), drawn from a
  counter; \<open>removeEventListener\<close> and \<open>disconnect\<close> take that identity out.
\<close>

record 'e window =
  doc :: "'e document"
  keydownListeners :: "nat list"
  observers :: "nat list"
  fresh :: nat

text \<open>One mounted \<open>FocusLock\<close>: its refs, the props of its last render, and what the
  closures of its effects hold: the observer of the first effect, the props the second
  effect ran with, the \<open>handleKeyPress\<close> of the third effect with the \<open>isLocked\<close> it
  captured.\<close>

record 'e FocusLockInstance =
  refs :: "'e FocusLockRefs"
  props :: "'e FocusLockProps"
  observer :: "nat option"
  captured :: "'e FocusLockProps"
  listener :: "(nat \<times> bool) option"

text \<open>First effect (lines 29-49) and its cleanup.\<close>

definition focusableEffect ::
  "('e \<Rightarrow> 'e list) \<Rightarrow> 'e FocusLockInstance \<times> 'e window \<Rightarrow> 'e FocusLockInstance \<times> 'e window" where
  "focusableEffect query s =
     (case s of (i, w) \<Rightarrow>
        (let ob = fresh w;
             w1 = w\<lparr>fresh := Suc ob\<rparr>;
             r = updateFocusableItems query (refs i);
             w2 = (case rootNode r of
                     Some root \<Rightarrow> w1\<lparr>observers := observers w1 @ [ob]\<rparr>
                   | None \<Rightarrow> w1)
         in (i\<lparr>refs := r, observer := Some ob\<rparr>, w2)))"

definition focusableCleanup ::
  "'e FocusLockInstance \<times> 'e window \<Rightarrow> 'e FocusLockInstance \<times> 'e window" where
  "focusableCleanup s =
     (case s of (i, w) \<Rightarrow>
        (case observer i of
           Some ob \<Rightarrow> (i, w\<lparr>observers := removeAll ob (observers w)\<rparr>)
         | None \<Rightarrow> (i, w)))"

text \<open>The observer's callback (lines 39-41): it runs only while the observer is
  connected.\<close>

definition mutationCallback ::
  "('e \<Rightarrow> 'e list) \<Rightarrow> 'e FocusLockInstance \<times> 'e window \<Rightarrow> 'e FocusLockInstance \<times> 'e window" where
  "mutationCallback query s =
     (case s of (i, w) \<Rightarrow>
        (case observer i of
           Some ob \<Rightarrow>
             if ob \<in> set (observers w) then (i\<lparr>refs := updateFocusableItems query (refs i)\<rparr>, w)
             else (i, w)
         | None \<Rightarrow> (i, w)))"

text \<open>Second effect (lines 52-66) and its cleanup, on the instance.\<close>

definition captureEffect ::
  "'e FocusLockInstance \<times> 'e window \<Rightarrow> 'e FocusLockInstance \<times> 'e window" where
  "captureEffect s =
     (case s of (i, w) \<Rightarrow>
        (case activateCapture (props i) (refs i, doc w) of
           (r, d) \<Rightarrow> (i\<lparr>refs := r, captured := props i\<rparr>, w\<lparr>doc := d\<rparr>)))"

definition captureCleanup ::
  "'e FocusLockInstance \<times> 'e window \<Rightarrow> 'e FocusLockInstance \<times> 'e window" where
  "captureCleanup s =
     (case s of (i, w) \<Rightarrow>
        (case releaseCapture (captured i) (refs i, doc w) of
           (r, d) \<Rightarrow> (i\<lparr>refs := r\<rparr>, w\<lparr>doc := d\<rparr>)))"

text \<open>Third effect (lines 69-106) and its cleanup.\<close>

definition keyEffect ::
  "'e FocusLockInstance \<times> 'e window \<Rightarrow> 'e FocusLockInstance \<times> 'e window" where
  "keyEffect s =
     (case s of (i, w) \<Rightarrow>
        (let h = fresh w
         in (i\<lparr>listener := Some (h, isLocked (props i))\<rparr>,
             w\<lparr>fresh := Suc h, keydownListeners := keydownListeners w @ [h]\<rparr>)))"

definition keyCleanup ::
  "'e FocusLockInstance \<times> 'e window \<Rightarrow> 'e FocusLockInstance \<times> 'e window" where
  "keyCleanup s =
     (case s of (i, w) \<Rightarrow>
        (case listener i of
           Some (h, l) \<Rightarrow> (i, w\<lparr>keydownListeners := removeAll h (keydownListeners w)\<rparr>)
         | None \<Rightarrow> (i, w)))"

text \<open>A keydown on \<open>window\<close> reaches the instance's handler only while it is
  registered.\<close>

definition dispatchKeydown ::
  "KeyboardEvent \<Rightarrow> 'e FocusLockInstance \<times> 'e window
     \<Rightarrow> error + (KeyboardEvent \<times> 'e FocusLockInstance \<times> 'e window)" where
  "dispatchKeydown ev s =
     (case s of (i, w) \<Rightarrow>
        (case listener i of
           Some (h, l) \<Rightarrow>
             if h \<in> set (keydownListeners w) then
               (case handleKeyPress l (focusableItems (refs i)) ev (doc w) of
                  Inl e \<Rightarrow> Inl e
                | Inr (ev', d') \<Rightarrow> Inr (ev', i, w\<lparr>doc := d'\<rparr>))
             else Inr (ev, i, w)
         | None \<Rightarrow> Inr (ev, i, w)))"

text \<open>Mounting renders the root \<open>div\<close>, attaches it to the \<open>rootNode\<close> ref and runs the
  three effects in order.\<close>

definition mount ::
  "('e \<Rightarrow> 'e list) \<Rightarrow> 'e FocusLockProps \<Rightarrow> 'e \<Rightarrow> 'e window \<Rightarrow> 'e FocusLockInstance \<times> 'e window" where
  "mount query p root w =
     keyEffect (captureEffect (focusableEffect query
       (\<lparr>refs = \<lparr>rootNode = Some root, focusableItems = None, returnFocusNode = None\<rparr>,
         props = p, observer = None, captured = p, listener = None\<rparr>, w)))"

text \<open>The dependency lists of the second (line 66) and third (line 106) effect;
  \<open>focusableItems\<close> in the latter is the ref object, which never changes.\<close>

definition captureDepsChanged :: "'e FocusLockProps \<Rightarrow> 'e FocusLockProps \<Rightarrow> bool" where
  "captureDepsChanged p q =
     (autoFocusOnMount p \<noteq> autoFocusOnMount q \<or> finalFocusRef p \<noteq> finalFocusRef q
      \<or> initialFocusRef p \<noteq> initialFocusRef q \<or> returnFocusOnClose p \<noteq> returnFocusOnClose q)"

definition keyDepsChanged :: "'e FocusLockProps \<Rightarrow> 'e FocusLockProps \<Rightarrow> bool" where
  "keyDepsChanged p q = (isLocked p \<noteq> isLocked q)"

text \<open>A render with new props: the cleanups of the effects whose dependencies changed
  run first, then those effects run again.\<close>

definition rerender ::
  "'e FocusLockProps \<Rightarrow> 'e FocusLockInstance \<times> 'e window \<Rightarrow> 'e FocusLockInstance \<times> 'e window" where
  "rerender q s =
     (case s of (i, w) \<Rightarrow>
        (let c = captureDepsChanged (props i) q;
             k = keyDepsChanged (props i) q;
             s1 = (if c then captureCleanup (i, w) else (i, w));
             s2 = (if k then keyCleanup s1 else s1);
             s3 = (case s2 of (i2, w2) \<Rightarrow> (i2\<lparr>props := q\<rparr>, w2));
             s4 = (if c then captureEffect s3 else s3)
         in if k then keyEffect s4 else s4))"

text \<open>Unmounting runs every cleanup and detaches the root from its ref.\<close>

definition unmount ::
  "'e FocusLockInstance \<times> 'e window \<Rightarrow> 'e FocusLockInstance \<times> 'e window" where
  "unmount s =
     (case keyCleanup (captureCleanup (focusableCleanup s)) of
        (i, w) \<Rightarrow> (i\<lparr>refs := (refs i)\<lparr>rootNode := None\<rparr>\<rparr>, w))"

datatype 'e LifecycleEvent =
    Rerender "'e FocusLockProps"
  | Mutation
  | Keydown KeyboardEvent

fun lifecycle ::
  "('e \<Rightarrow> 'e list) \<Rightarrow> 'e LifecycleEvent list \<Rightarrow> 'e FocusLockInstance \<times> 'e window
     \<Rightarrow> error + ('e FocusLockInstance \<times> 'e window)" where
  "lifecycle query [] s = Inr s"
| "lifecycle query (Rerender q # evs) s = lifecycle query evs (rerender q s)"
| "lifecycle query (Mutation # evs) s = lifecycle query evs (mutationCallback query s)"
| "lifecycle query (Keydown ev # evs) s =
     (case dispatchKeydown ev s of
        Inl e \<Rightarrow> Inl e
      | Inr (ev', s') \<Rightarrow> lifecycle query evs s')"

text \<open>Every identity in use is below the counter.\<close>

definition ids_below :: "nat \<Rightarrow> nat list \<Rightarrow> bool" where
  "ids_below n xs = list_all (\<lambda>x. x < n) xs"

text \<open>What a mounted instance holds of a window that was \<open>w0\<close> before the mount:
  one connected observer and one registered listener, both created after \<open>w0\<close>, on
  top of what \<open>w0\<close> had.\<close>

definition acquired :: "'e window \<Rightarrow> 'e FocusLockInstance \<times> 'e window \<Rightarrow> bool" where
  "acquired w0 s =
     (case s of (i, w) \<Rightarrow>
        (case observer i of
           None \<Rightarrow> False
         | Some ob \<Rightarrow> fresh w0 \<le> ob \<and> ob < fresh w \<and> observers w = observers w0 @ [ob])
      \<and> (case listener i of
           None \<Rightarrow> False
         | Some (h, l) \<Rightarrow>
             fresh w0 \<le> h \<and> h < fresh w \<and> keydownListeners w = keydownListeners w0 @ [h]))"

section \<open>Modal\<close>

definition TRANSITION_DURATION :: nat where
  "TRANSITION_DURATION = 200"

text \<open>The props of \<open>Modal\<close> that its lifecycle logic reads (Modal.tsx, lines 28-58).\<close>

record ModalProps =
  isOpen :: bool
  closeOnEsc :: bool
  lockScroll :: bool
  trapFocus :: bool
  autoFocus :: bool
  returnFocus :: bool
  transitionDuration :: "nat option"

text \<open>The props \<open>Modal\<close> gives its \<open>FocusLock\<close> (lines 102-106): no ref is passed on.\<close>

definition Modal_FocusLock_props :: "ModalProps \<Rightarrow> 'e FocusLockProps" where
  "Modal_FocusLock_props p =
     \<lparr>isLocked = trapFocus p, autoFocusOnMount = autoFocus p, returnFocusOnClose = returnFocus p,
      initialFocusRef = None, finalFocusRef = None\<rparr>"

text \<open>The value of the style variable \<open>--modal-transition-duration\<close> (lines 124-126).\<close>

definition Modal_css_transition_duration :: "ModalProps \<Rightarrow> nat" where
  "Modal_css_transition_duration p =
     (case transitionDuration p of Some d \<Rightarrow> d | None \<Rightarrow> TRANSITION_DURATION)"

subsection \<open>Mount transition\<close>

datatype TransitionState = Closed | Entering | Open

record MountTransition =
  state :: TransitionState
  timer :: "(nat \<times> TransitionState) option"

text \<open>Modelled from the spec: the hook \<open>useMountTransition\<close>
  (hooks/useMountTransition.hook) is imported by Modal.tsx and is not among the sources.
  Section 4.4 of the specification gives its state machine: when the intent becomes true
  the content attaches at once (Closed to Entering) and reaches Open after the duration,
  or immediately when the duration is 0; when the intent becomes false the content
  detaches (Closed) after the same duration. The pending change is a timer holding the
  milliseconds left and the state it leads to.\<close>

definition useMountTransition :: "bool \<Rightarrow> nat \<Rightarrow> MountTransition \<Rightarrow> MountTransition" where
  "useMountTransition open T s =
     (if open then
        (if state s = Open then s\<lparr>timer := None\<rparr>
         else if T = 0 then \<lparr>state = Open, timer = None\<rparr>
         else \<lparr>state = Entering, timer = Some (T, Open)\<rparr>)
      else
        (if state s = Closed then s\<lparr>timer := None\<rparr>
         else if T = 0 then \<lparr>state = Closed, timer = None\<rparr>
         else s\<lparr>timer := Some (T, Closed)\<rparr>))"

text \<open>Modelled from the spec: the passing of \<open>ms\<close> milliseconds for the hook above; the
  timer fires when its time has elapsed.\<close>

definition elapse :: "nat \<Rightarrow> MountTransition \<Rightarrow> MountTransition" where
  "elapse ms s =
     (case timer s of
        None \<Rightarrow> s
      | Some (left, target) \<Rightarrow>
          if left \<le> ms then \<lparr>state = target, timer = None\<rparr>
          else s\<lparr>timer := Some (left - ms, target)\<rparr>)"

text \<open>Modelled from the spec: the first value the hook returns, read off the state of
  section 4.4: the content is in the tree in Entering and in Open.\<close>

definition isContentVisible :: "MountTransition \<Rightarrow> bool" where
  "isContentVisible s = (state s \<noteq> Closed)"

text \<open>Modelled from the spec: the second value the hook returns, read off the state of
  section 4.4: the opened state is Open.\<close>

definition isTransitionClassApplied :: "MountTransition \<Rightarrow> bool" where
  "isTransitionClassApplied s = (state s = Open)"

text \<open>The call of the hook in \<open>Modal\<close> (lines 62-65): the duration passed is the
  constant, whatever \<open>transitionDuration\<close> is.\<close>

definition Modal_useMountTransition :: "ModalProps \<Rightarrow> MountTransition \<Rightarrow> MountTransition" where
  "Modal_useMountTransition p s = useMountTransition (isOpen p) TRANSITION_DURATION s"

subsection \<open>Escape\<close>

text \<open>A mounted \<open>Modal\<close>: its props, the state of its mount transition and the
  \<open>div\<close> it renders as its root when the content is in the tree.\<close>

record 'e ModalInstance =
  mprops :: ModalProps
  transition :: MountTransition
  modalRoot :: 'e

text \<open>\<open>modalRef.current\<close>: the root \<open>div\<close> is rendered, and the ref attached to it,
  only when \<open>isContentVisible\<close> (lines 100-101, 134); otherwise the ref holds \<open>null\<close>.\<close>

definition modalRef :: "'e ModalInstance \<Rightarrow> 'e option" where
  "modalRef m = (if isContentVisible (transition m) then Some (modalRoot m) else None)"

text \<open>\<open>onEscape\<close> (lines 73-79). \<open>modals\<close> is what \<open>getOverlayElements("Modal")\<close>
  returns; the result says whether \<open>onClose()\<close> is called.\<close>

definition onEscape :: "bool \<Rightarrow> 'e option \<Rightarrow> 'e list \<Rightarrow> bool" where
  "onEscape closeOnEsc_p modalRef_current modals =
     (if closeOnEsc_p then
        (let lastModal = item modals (int (length modals) - 1)
         in truthy lastModal \<and> lastModal = of_nullable modalRef_current)
      else False)"

definition Modal_onEscape :: "'e ModalInstance \<Rightarrow> 'e list \<Rightarrow> bool" where
  "Modal_onEscape m modals = onEscape (closeOnEsc (mprops m)) (modalRef m) modals"

text \<open>Modelled from the spec: the hook \<open>useKeyboardShortcut\<close>
  (hooks/useKeyboardShortcut.hook) is not among the sources. Section 4.4 says that on an
  Escape keydown each mounted instance runs its Escape listener. The result lists the
  positions of the instances whose close callback is invoked.\<close>

definition escapeKeydown :: "'e ModalInstance list \<Rightarrow> 'e list \<Rightarrow> nat list" where
  "escapeKeydown ms modals = filter (\<lambda>k. Modal_onEscape (ms ! k) modals) [0..<length ms]"

subsection \<open>Scroll lock\<close>

text \<open>The page as the scroll-lock effect sees it: the overlay roots attached to the
  document, in document order, and whether \<open>body\<close> carries the no-scroll class.\<close>

record 'e page =
  overlays :: "'e list"
  noScroll :: bool

text \<open>Modelled from the spec: \<open>getOverlayElements\<close> (utils/dom.utils) is not among the
  sources. Section 4.3 of the specification: given the marker of overlay roots it returns
  the live ordered sequence of the currently attached ones, in document order, with no
  caching.\<close>

definition getOverlayElements :: "'e page \<Rightarrow> 'e list" where
  "getOverlayElements pg = overlays pg"

text \<open>The scroll-lock effect (lines 90-98), on the page it reads and writes.\<close>

definition scrollLockEffect :: "bool \<Rightarrow> bool \<Rightarrow> 'e page \<Rightarrow> 'e page" where
  "scrollLockEffect lockScroll_p contentVisible pg =
     (if lockScroll_p then
        (let modals = getOverlayElements pg
         in if contentVisible \<and> length modals = 1 then pg\<lparr>noScroll := True\<rparr>
            else if length modals = 0 then pg\<lparr>noScroll := False\<rparr>
            else pg)
      else pg)"

text \<open>What an instance, known by its root, goes through in a commit: it mounts with its
  content not in the tree; its \<open>isContentVisible\<close> becomes true and its root is attached
  through the portal at the end of the target; its \<open>isContentVisible\<close> becomes false and
  its root is taken out; or the instance itself is removed from the tree, root included.\<close>

datatype 'e ModalEvent = Mounted 'e | Shown 'e | Hidden 'e | Removed 'e

fun event_root :: "'e ModalEvent \<Rightarrow> 'e" where
  "event_root (Mounted r) = r"
| "event_root (Shown r) = r"
| "event_root (Hidden r) = r"
| "event_root (Removed r) = r"

text \<open>Whether the event changes anything, given the roots attached before the commit:
  the effect of an instance runs only when \<open>isContentVisible\<close> has changed (line 98).\<close>

fun changed :: "'e list \<Rightarrow> 'e ModalEvent \<Rightarrow> bool" where
  "changed os (Mounted r) = True"
| "changed os (Shown r) = (r \<notin> set os)"
| "changed os (Hidden r) = (r \<in> set os)"
| "changed os (Removed r) = True"

text \<open>What the commit does to the attached overlay roots.\<close>

fun domChange :: "'e ModalEvent \<Rightarrow> 'e list \<Rightarrow> 'e list" where
  "domChange (Mounted r) os = os"
| "domChange (Shown r) os = os @ [r]"
| "domChange (Hidden r) os = removeAll r os"
| "domChange (Removed r) os = removeAll r os"

text \<open>The effect the instance runs after the commit. \<open>locking\<close> holds the roots of the
  instances whose \<open>lockScroll\<close> is on. The effect returns no cleanup (lines 90-98), so
  nothing runs for an instance that is removed.\<close>

fun runEffect :: "'e set \<Rightarrow> 'e ModalEvent \<Rightarrow> 'e page \<Rightarrow> 'e page" where
  "runEffect locking (Mounted r) pg = scrollLockEffect (r \<in> locking) False pg"
| "runEffect locking (Shown r) pg = scrollLockEffect (r \<in> locking) True pg"
| "runEffect locking (Hidden r) pg = scrollLockEffect (r \<in> locking) False pg"
| "runEffect locking (Removed r) pg = pg"

text \<open>One commit: all the changes of the render reach the document first, then the
  effects of the changed instances run, in order, each reading the document as the whole
  commit left it. An instance changes at most once in a commit, so a repeated event
  counts once.\<close>

definition commit :: "'e set \<Rightarrow> 'e ModalEvent list \<Rightarrow> 'e page \<Rightarrow> 'e page" where
  "commit locking chs pg =
     (let real = remdups (filter (changed (overlays pg)) chs)
      in fold (runEffect locking) real (pg\<lparr>overlays := fold domChange real (overlays pg)\<rparr>))"

fun commits :: "'e set \<Rightarrow> 'e ModalEvent list list \<Rightarrow> 'e page \<Rightarrow> 'e page" where
  "commits locking [] pg = pg"
| "commits locking (chs # rest) pg = commits locking rest (commit locking chs pg)"

section \<open>Tab interception\<close>

lemma item_first: "xs \<noteq> [] \<Longrightarrow> item xs 0 = Elem (hd xs)"
  by (cases xs) (simp_all add: item_def)

lemma item_last: "xs \<noteq> [] \<Longrightarrow> item xs (int (length xs) - 1) = Elem (last xs)"
proof -
  assume ne: "xs \<noteq> []"
  then have "nat (int (length xs) - 1) = length xs - 1" by simp
  with ne show ?thesis by (simp add: item_def last_conv_nth)
qed

lemma of_nullable_Elem: "(of_nullable a = Elem e) = (a = Some e)"
  by (cases a) simp_all

lemma of_nullable_defined: "of_nullable a \<noteq> Undefined"
  by (cases a) simp_all

text \<open>The handler never throws: \<open>firstItem.focus()\<close> and \<open>lastItem.focus()\<close> are reached
  only after the active element was found equal to an item, so the list is not empty.\<close>

lemma handleKeyPress_total: "\<exists>r. handleKeyPress locked items ev d = Inr r"
proof (cases items)
  case None
  then show ?thesis by (simp add: handleKeyPress_def)
next
  case (Some xs)
  show ?thesis
  proof (cases "xs = []")
    case True
    with Some show ?thesis
      by (simp add: handleKeyPress_def item_def of_nullable_defined)
  next
    case False
    with Some show ?thesis
      by (simp add: handleKeyPress_def Let_def item_first item_last)
  qed
qed

text \<open>
  C3, as claimed, fails: the focus does not always move. The node list is \<open>[1, 2]\<close>,
  element 1 cannot take the focus any more (it was disabled after the list was read, which
  the observer of direct child changes does not see), the focus is on element 2 and Tab
  is pressed without shift: the default is prevented and the focus stays on element 2.
\<close>

theorem tab_wrap_onto_unfocusable_member:
  "handleKeyPress True (Some [1::nat, 2])
       \<lparr>key = ''Tab'', shiftKey = False, defaultPrevented = False\<rparr>
       \<lparr>activeElement = Some 2, focusable = {2}\<rparr>
     = Inr (\<lparr>key = ''Tab'', shiftKey = False, defaultPrevented = True\<rparr>,
            \<lparr>activeElement = Some 2, focusable = {2}\<rparr>)"
  by (simp add: handleKeyPress_def item_def preventDefault_def)

text \<open>
  C3, amended. A locked FocusLock whose node list has at least two members, on a Tab
  keydown: without shift and with the focus on the last member, the default is prevented
  and \<open>focus()\<close> is called on the first member, which takes the focus if it can and
  leaves it where it is otherwise; with shift and with the focus on the first member, the
  default is prevented and \<open>focus()\<close> is called on the last member, likewise; in every
  other case the event and the document are left as they were.
\<close>

theorem tab_wraps_at_the_ends:
  assumes "2 \<le> length xs" and "key ev = ''Tab''"
  shows "handleKeyPress True (Some xs) ev d =
           (if \<not> shiftKey ev \<and> activeElement d = Some (last xs)
              then Inr (preventDefault ev,
                        if hd xs \<in> focusable d then d\<lparr>activeElement := Some (hd xs)\<rparr> else d)
            else if shiftKey ev \<and> activeElement d = Some (hd xs)
              then Inr (preventDefault ev,
                        if last xs \<in> focusable d then d\<lparr>activeElement := Some (last xs)\<rparr> else d)
            else Inr (ev, d))"
proof -
  from assms(1) have ne: "xs \<noteq> []" by auto
  from assms(1) have len: "int (length xs) \<noteq> 1" by simp
  show ?thesis
    using assms(2) len
    by (simp add: handleKeyPress_def Let_def item_first [OF ne] item_last [OF ne]
        of_nullable_Elem)
qed

theorem tab_wraps_at_the_ends_witness:
  "handleKeyPress True (Some [1::nat, 2, 3])
       \<lparr>key = ''Tab'', shiftKey = False, defaultPrevented = False\<rparr>
       \<lparr>activeElement = Some 3, focusable = {1, 2, 3}\<rparr>
     = Inr (\<lparr>key = ''Tab'', shiftKey = False, defaultPrevented = True\<rparr>,
            \<lparr>activeElement = Some 1, focusable = {1, 2, 3}\<rparr>)
   \<and> handleKeyPress True (Some [1::nat, 2, 3])
       \<lparr>key = ''Tab'', shiftKey = True, defaultPrevented = False\<rparr>
       \<lparr>activeElement = Some 1, focusable = {1, 2}\<rparr>
     = Inr (\<lparr>key = ''Tab'', shiftKey = True, defaultPrevented = True\<rparr>,
            \<lparr>activeElement = Some 1, focusable = {1, 2}\<rparr>)
   \<and> handleKeyPress True (Some [1::nat, 2, 3])
       \<lparr>key = ''Tab'', shiftKey = False, defaultPrevented = False\<rparr>
       \<lparr>activeElement = Some 2, focusable = {1, 2, 3}\<rparr>
     = Inr (\<lparr>key = ''Tab'', shiftKey = False, defaultPrevented = False\<rparr>,
            \<lparr>activeElement = Some 2, focusable = {1, 2, 3}\<rparr>)"
  using tab_wraps_at_the_ends [of "[1::nat, 2, 3]"
      "\<lparr>key = ''Tab'', shiftKey = False, defaultPrevented = False\<rparr>"
      "\<lparr>activeElement = Some 3, focusable = {1, 2, 3}\<rparr>"]
    tab_wraps_at_the_ends [of "[1::nat, 2, 3]"
      "\<lparr>key = ''Tab'', shiftKey = True, defaultPrevented = False\<rparr>"
      "\<lparr>activeElement = Some 1, focusable = {1, 2}\<rparr>"]
    tab_wraps_at_the_ends [of "[1::nat, 2, 3]"
      "\<lparr>key = ''Tab'', shiftKey = False, defaultPrevented = False\<rparr>"
      "\<lparr>activeElement = Some 2, focusable = {1, 2, 3}\<rparr>"]
  by (simp add: preventDefault_def)

text \<open>
  C4. A locked FocusLock whose node list has exactly one member prevents the default of
  every Tab keydown, with or without shift; the focus is not moved.
\<close>

theorem single_item_tab_prevented:
  assumes "length xs = 1" and "key ev = ''Tab''"
  shows "handleKeyPress True (Some xs) ev d = Inr (preventDefault ev, d)"
  using assms by (simp add: handleKeyPress_def Let_def)

theorem single_item_tab_prevented_witness:
  "handleKeyPress True (Some [7::nat])
       \<lparr>key = ''Tab'', shiftKey = True, defaultPrevented = False\<rparr>
       \<lparr>activeElement = None, focusable = {7}\<rparr>
     = Inr (\<lparr>key = ''Tab'', shiftKey = True, defaultPrevented = True\<rparr>,
            \<lparr>activeElement = None, focusable = {7}\<rparr>)
   \<and> handleKeyPress True (Some [7::nat])
       \<lparr>key = ''Tab'', shiftKey = False, defaultPrevented = False\<rparr>
       \<lparr>activeElement = Some 7, focusable = {7}\<rparr>
     = Inr (\<lparr>key = ''Tab'', shiftKey = False, defaultPrevented = True\<rparr>,
            \<lparr>activeElement = Some 7, focusable = {7}\<rparr>)"
  using single_item_tab_prevented [of "[7::nat]"
      "\<lparr>key = ''Tab'', shiftKey = True, defaultPrevented = False\<rparr>"
      "\<lparr>activeElement = None, focusable = {7}\<rparr>"]
    single_item_tab_prevented [of "[7::nat]"
      "\<lparr>key = ''Tab'', shiftKey = False, defaultPrevented = False\<rparr>"
      "\<lparr>activeElement = Some 7, focusable = {7}\<rparr>"]
  by (simp add: preventDefault_def)

text \<open>
  C5. With an empty node list the handler does nothing on any keydown, Tab included,
  locked or not: it returns without an error, the default is not prevented and the
  focus is not moved. Both items read from the list are \<open>undefined\<close>, and the active
  element, an element or \<open>null\<close>, is never identical to \<open>undefined\<close>. The same
  holds while the node list has not been computed yet.
\<close>

theorem empty_set_tab_noop:
  "handleKeyPress locked (Some []) ev d = Inr (ev, d)
   \<and> handleKeyPress locked None ev d = Inr (ev, d)"
  by (simp add: handleKeyPress_def item_def of_nullable_defined)

section \<open>Focus capture and release\<close>

text \<open>With \<open>autoFocusOnMount\<close> on and no final ref, activation captures the active
  element.\<close>

lemma capture_with_autofocus:
  "autoFocusOnMount p \<Longrightarrow> finalFocusRef p = None \<Longrightarrow>
     returnFocusNode (fst (activateCapture p (r, d))) = activeElement d"
  by (simp add: activateCapture_def Let_def split: option.splits)

text \<open>
  C1. The claim is that the return target is captured at every activation and the focus
  restored at release whatever \<open>autoFocusOnMount\<close> is. The capture sits inside the
  \<open>if (autoFocusOnMount)\<close> of the effect. A Modal with \<open>autoFocus\<close> off and
  \<open>returnFocus\<close> on: element 9 holds the focus when the lock activates, nothing is
  captured; the focus then goes to element 1 inside the lock, and release leaves it
  there instead of giving it back to element 9.
\<close>

theorem return_focus_lost_without_autofocus:
  "returnFocusNode (fst (activateCapture
        (Modal_FocusLock_props
           \<lparr>isOpen = True, closeOnEsc = True, lockScroll = True, trapFocus = True,
             autoFocus = False, returnFocus = True, transitionDuration = None\<rparr>)
        (\<lparr>rootNode = Some 0, focusableItems = Some [1, 2], returnFocusNode = None\<rparr>,
         \<lparr>activeElement = Some (9::nat), focusable = UNIV\<rparr>))) = None
   \<and> activeElement (snd (releaseCapture
        (Modal_FocusLock_props
           \<lparr>isOpen = True, closeOnEsc = True, lockScroll = True, trapFocus = True,
             autoFocus = False, returnFocus = True, transitionDuration = None\<rparr>)
        (fst (activateCapture
           (Modal_FocusLock_props
              \<lparr>isOpen = True, closeOnEsc = True, lockScroll = True, trapFocus = True,
                autoFocus = False, returnFocus = True, transitionDuration = None\<rparr>)
           (\<lparr>rootNode = Some 0, focusableItems = Some [1, 2], returnFocusNode = None\<rparr>,
            \<lparr>activeElement = Some (9::nat), focusable = UNIV\<rparr>)),
         \<lparr>activeElement = Some 1, focusable = UNIV\<rparr>))) = Some 1"
  by (simp add: activateCapture_def releaseCapture_def Modal_FocusLock_props_def)

text \<open>
  C6, as claimed, fails, in two ways. An initial ref that is passed and whose \<open>current\<close>
  is \<open>null\<close> does not fall back to the first member of the node list: the list is
  \<open>[1, 2]\<close>, every element can take the focus, and the focus stays on element 9. And
  with no initial ref, the first member of the list may be unable to take the focus any
  more: the list is \<open>[1, 2]\<close>, element 1 cannot take the focus, and the focus stays on
  element 9.
\<close>

theorem unresolved_initial_ref_no_fallback:
  "activeElement (snd (activateCapture
        \<lparr>isLocked = True, autoFocusOnMount = True, returnFocusOnClose = True,
          initialFocusRef = Some None, finalFocusRef = None\<rparr>
        (\<lparr>rootNode = Some 0, focusableItems = Some [1, 2], returnFocusNode = None\<rparr>,
         \<lparr>activeElement = Some (9::nat), focusable = UNIV\<rparr>))) = Some 9
   \<and> activeElement (snd (activateCapture
        \<lparr>isLocked = True, autoFocusOnMount = True, returnFocusOnClose = True,
          initialFocusRef = None, finalFocusRef = None\<rparr>
        (\<lparr>rootNode = Some 0, focusableItems = Some [1, 2], returnFocusNode = None\<rparr>,
         \<lparr>activeElement = Some (9::nat), focusable = {2, 9}\<rparr>))) = Some 9"
  by (simp add: activateCapture_def item_def)

text \<open>
  C6, amended. On activation with \<open>autoFocusOnMount\<close> on: when no initial ref is
  passed, \<open>focus()\<close> is called on member 0 of the node list if there is one, which takes
  the focus if it can and leaves it where it is otherwise, and the focus stays where it
  is when the list is empty or not yet computed; when an initial ref is passed and does
  not resolve to an element, the focus stays where it is.
\<close>

theorem initial_focus_without_ref:
  assumes "autoFocusOnMount p"
  shows "(initialFocusRef p = None \<longrightarrow>
            snd (activateCapture p (r, d)) =
              (case focusableItems r of
                 Some (x # xs) \<Rightarrow> if x \<in> focusable d then d\<lparr>activeElement := Some x\<rparr> else d
               | Some [] \<Rightarrow> d
               | None \<Rightarrow> d))
       \<and> (initialFocusRef p = Some None \<longrightarrow> snd (activateCapture p (r, d)) = d)"
  using assms
  by (auto simp add: activateCapture_def Let_def item_def split: option.splits list.splits)

theorem initial_focus_without_ref_witness:
  "activeElement (snd (activateCapture
        \<lparr>isLocked = True, autoFocusOnMount = True, returnFocusOnClose = True,
          initialFocusRef = None, finalFocusRef = None\<rparr>
        (\<lparr>rootNode = Some 0, focusableItems = Some [1, 2], returnFocusNode = None\<rparr>,
         \<lparr>activeElement = Some (9::nat), focusable = {1, 2, 9}\<rparr>))) = Some 1
   \<and> activeElement (snd (activateCapture
        \<lparr>isLocked = True, autoFocusOnMount = True, returnFocusOnClose = True,
          initialFocusRef = None, finalFocusRef = None\<rparr>
        (\<lparr>rootNode = Some 0, focusableItems = Some [], returnFocusNode = None\<rparr>,
         \<lparr>activeElement = Some (9::nat), focusable = {1, 2, 9}\<rparr>))) = Some 9
   \<and> activeElement (snd (activateCapture
        \<lparr>isLocked = True, autoFocusOnMount = True, returnFocusOnClose = True,
          initialFocusRef = Some None, finalFocusRef = None\<rparr>
        (\<lparr>rootNode = Some 0, focusableItems = Some [1, 2], returnFocusNode = None\<rparr>,
         \<lparr>activeElement = Some (9::nat), focusable = {1, 2, 9}\<rparr>))) = Some 9"
  using initial_focus_without_ref [of
      "\<lparr>isLocked = True, autoFocusOnMount = True, returnFocusOnClose = True,
          initialFocusRef = None, finalFocusRef = None\<rparr>"
      "\<lparr>rootNode = Some 0, focusableItems = Some [1, 2], returnFocusNode = None\<rparr>"
      "\<lparr>activeElement = Some (9::nat), focusable = {1, 2, 9}\<rparr>"]
    initial_focus_without_ref [of
      "\<lparr>isLocked = True, autoFocusOnMount = True, returnFocusOnClose = True,
          initialFocusRef = None, finalFocusRef = None\<rparr>"
      "\<lparr>rootNode = Some 0, focusableItems = Some [], returnFocusNode = None\<rparr>"
      "\<lparr>activeElement = Some (9::nat), focusable = {1, 2, 9}\<rparr>"]
    initial_focus_without_ref [of
      "\<lparr>isLocked = True, autoFocusOnMount = True, returnFocusOnClose = True,
          initialFocusRef = Some None, finalFocusRef = None\<rparr>"
      "\<lparr>rootNode = Some 0, focusableItems = Some [1, 2], returnFocusNode = None\<rparr>"
      "\<lparr>activeElement = Some (9::nat), focusable = {1, 2, 9}\<rparr>"]
  by simp

section \<open>Release of listeners and observers\<close>

lemma removeAll_fresh:
  "ids_below n xs \<Longrightarrow> n \<le> h \<Longrightarrow> removeAll h xs = xs"
  by (induction xs) (auto simp add: ids_below_def)

lemma not_in_ids_below: "ids_below n xs \<Longrightarrow> n \<le> h \<Longrightarrow> h \<notin> set xs"
  by (auto simp add: ids_below_def list_all_iff)

lemma acquired_iff:
  "acquired w0 (i, w) =
     (\<exists>ob h l. observer i = Some ob \<and> listener i = Some (h, l)
        \<and> fresh w0 \<le> ob \<and> ob < fresh w \<and> observers w = observers w0 @ [ob]
        \<and> fresh w0 \<le> h \<and> h < fresh w \<and> keydownListeners w = keydownListeners w0 @ [h])"
  by (auto simp add: acquired_def split: option.splits)

lemma acquired_mount:
  "acquired w0 (mount query p root w0)"
  by (simp add: mount_def keyEffect_def captureEffect_def focusableEffect_def
      updateFocusableItems_def acquired_def Let_def split: prod.splits)

lemma acquired_captureCleanup:
  assumes "acquired w0 s"
  shows "acquired w0 (captureCleanup s)"
proof (cases s)
  case (Pair i w)
  obtain r d where rd: "releaseCapture (captured i) (refs i, doc w) = (r, d)"
    by (cases "releaseCapture (captured i) (refs i, doc w)")
  from assms Pair have "acquired w0 (i, w)" by simp
  then have "acquired w0 (i\<lparr>refs := r\<rparr>, w\<lparr>doc := d\<rparr>)"
    by (simp add: acquired_iff)
  with Pair rd show ?thesis by (simp add: captureCleanup_def)
qed

lemma acquired_captureEffect:
  assumes "acquired w0 s"
  shows "acquired w0 (captureEffect s)"
proof (cases s)
  case (Pair i w)
  obtain r d where rd: "activateCapture (props i) (refs i, doc w) = (r, d)"
    by (cases "activateCapture (props i) (refs i, doc w)")
  from assms Pair have "acquired w0 (i, w)" by simp
  then have "acquired w0 (i\<lparr>refs := r, captured := props i\<rparr>, w\<lparr>doc := d\<rparr>)"
    by (simp add: acquired_iff)
  with Pair rd show ?thesis by (simp add: captureEffect_def)
qed

lemma acquired_props:
  assumes "acquired w0 s"
  shows "acquired w0 (case s of (i, w) \<Rightarrow> (i\<lparr>props := q\<rparr>, w))"
  using assms by (cases s) (simp add: acquired_iff)


lemma keyCleanup_releases:
  assumes below: "ids_below (fresh w0) (keydownListeners w0)" and acq: "acquired w0 (i, w)"
  shows "keyCleanup (i, w) = (i, w\<lparr>keydownListeners := keydownListeners w0\<rparr>)"
proof -
  from acq obtain h l where h: "listener i = Some (h, l)" "fresh w0 \<le> h"
      "keydownListeners w = keydownListeners w0 @ [h]"
    by (auto simp add: acquired_iff)
  with below show ?thesis
    by (simp add: keyCleanup_def removeAll_fresh)
qed

lemma focusableCleanup_releases:
  assumes below: "ids_below (fresh w0) (observers w0)" and acq: "acquired w0 (i, w)"
  shows "focusableCleanup (i, w) = (i, w\<lparr>observers := observers w0\<rparr>)"
proof -
  from acq obtain ob where ob: "observer i = Some ob" "fresh w0 \<le> ob"
      "observers w = observers w0 @ [ob]"
    by (auto simp add: acquired_iff)
  with below show ?thesis
    by (simp add: focusableCleanup_def removeAll_fresh)
qed

text \<open>released: the state between key cleanup and key effect in a rerender\<close>

lemma acquired_rerender:
  assumes below: "ids_below (fresh w0) (keydownListeners w0)" and acq: "acquired w0 s"
  shows "acquired w0 (rerender q s)"
proof (cases s)
  case (Pair i w)
  let ?c = "captureDepsChanged (props i) q"
  let ?k = "keyDepsChanged (props i) q"
  define s1 where "s1 = (if ?c then captureCleanup (i, w) else (i, w))"
  have a1: "acquired w0 s1"
    using acq Pair by (simp add: s1_def acquired_captureCleanup)
  show ?thesis
  proof (cases ?k)
    case False
    define s3 where "s3 = (case s1 of (i2, w2) \<Rightarrow> (i2\<lparr>props := q\<rparr>, w2))"
    have a3: "acquired w0 s3" using a1 by (simp add: s3_def acquired_props)
    have "rerender q s = (if ?c then captureEffect s3 else s3)"
      using Pair False by (simp add: rerender_def Let_def s1_def s3_def)
    with a3 show ?thesis by (simp add: acquired_captureEffect)
  next
    case True
    obtain i1 w1 where s1: "s1 = (i1, w1)" by (cases s1)
    with a1 have a1': "acquired w0 (i1, w1)" by simp
    then obtain ob h l where inv: "observer i1 = Some ob" "listener i1 = Some (h, l)"
        "fresh w0 \<le> ob" "ob < fresh w1" "observers w1 = observers w0 @ [ob]"
        "fresh w0 \<le> h" "h < fresh w1" "keydownListeners w1 = keydownListeners w0 @ [h]"
      by (auto simp add: acquired_iff)
    have kc: "keyCleanup s1 = (i1, w1\<lparr>keydownListeners := keydownListeners w0\<rparr>)"
      using keyCleanup_releases [OF below a1'] s1 by simp
    define s3 where "s3 = (i1\<lparr>props := q\<rparr>, w1\<lparr>keydownListeners := keydownListeners w0\<rparr>)"
    define s4 where "s4 = (if ?c then captureEffect s3 else s3)"
    obtain i4 w4 where s4: "s4 = (i4, w4)" by (cases s4)
    have "rerender q s =
            keyEffect (if ?c then captureEffect (case keyCleanup s1 of (i2, w2) \<Rightarrow> (i2\<lparr>props := q\<rparr>, w2))
                       else (case keyCleanup s1 of (i2, w2) \<Rightarrow> (i2\<lparr>props := q\<rparr>, w2)))"
      using Pair True by (simp add: rerender_def Let_def s1_def)
    then have r: "rerender q s = keyEffect s4"
      by (simp add: kc s3_def s4_def)
    have keep: "observer i4 = Some ob \<and> fresh w4 = fresh w1
        \<and> observers w4 = observers w1 \<and> keydownListeners w4 = keydownListeners w0"
    proof (cases ?c)
      case False
      with s4 inv show ?thesis by (auto simp add: s4_def s3_def)
    next
      case True
      obtain r d where rd: "activateCapture q (refs i1, doc w1) = (r, d)"
        by (cases "activateCapture q (refs i1, doc w1)")
      with True s4 inv show ?thesis
        by (auto simp add: s4_def s3_def captureEffect_def)
    qed
    with inv have "acquired w0 (keyEffect (i4, w4))"
      by (simp add: keyEffect_def Let_def acquired_iff)
    with r s4 show ?thesis by simp
  qed
qed

lemma acquired_mutationCallback:
  assumes "acquired w0 s"
  shows "acquired w0 (mutationCallback query s)"
  using assms
  by (cases s) (auto simp add: mutationCallback_def acquired_iff split: option.splits)

lemma dispatchKeydown_acquired:
  assumes "acquired w0 s"
  shows "\<exists>ev' s'. dispatchKeydown ev s = Inr (ev', s') \<and> acquired w0 s'"
proof (cases s)
  case (Pair i w)
  with assms obtain h l where h: "listener i = Some (h, l)" and a: "acquired w0 (i, w)"
    by (auto simp add: acquired_iff)
  obtain ev' d' where r: "handleKeyPress l (focusableItems (refs i)) ev (doc w) = Inr (ev', d')"
    using handleKeyPress_total [of l "focusableItems (refs i)" ev "doc w"] by auto
  from a have "acquired w0 (i, w\<lparr>doc := d'\<rparr>)" by (simp add: acquired_iff)
  with Pair h r a show ?thesis
    by (auto simp add: dispatchKeydown_def)
qed

lemma lifecycle_acquired:
  assumes below: "ids_below (fresh w0) (keydownListeners w0)"
  shows "acquired w0 s \<Longrightarrow> \<exists>s'. lifecycle query evs s = Inr s' \<and> acquired w0 s'"
proof (induction evs arbitrary: s)
  case Nil
  then show ?case by simp
next
  case (Cons ev evs)
  show ?case
  proof (cases ev)
    case (Rerender q)
    from Cons.prems have "acquired w0 (rerender q s)" by (rule acquired_rerender [OF below])
    from Cons.IH [OF this] Rerender show ?thesis by simp
  next
    case Mutation
    from Cons.prems have "acquired w0 (mutationCallback query s)"
      by (rule acquired_mutationCallback)
    from Cons.IH [OF this] Mutation show ?thesis by simp
  next
    case (Keydown k)
    from dispatchKeydown_acquired [OF Cons.prems, of k]
    obtain ev' s1 where d: "dispatchKeydown k s = Inr (ev', s1)" and a: "acquired w0 s1"
      by blast
    from Cons.IH [OF a] Keydown d show ?thesis by simp
  qed
qed

lemma unmount_acquired:
  assumes bl: "ids_below (fresh w0) (keydownListeners w0)"
      and bo: "ids_below (fresh w0) (observers w0)"
      and acq: "acquired w0 s"
  shows "keydownListeners (snd (unmount s)) = keydownListeners w0
       \<and> observers (snd (unmount s)) = observers w0
       \<and> dispatchKeydown ev (unmount s) = Inr (ev, unmount s)
       \<and> mutationCallback query (unmount s) = unmount s"
proof (cases s)
  case (Pair i w)
  with acq have a: "acquired w0 (i, w)" by simp
  then obtain ob h l where inv: "observer i = Some ob" "listener i = Some (h, l)"
      "fresh w0 \<le> ob" "fresh w0 \<le> h"
    by (auto simp add: acquired_iff)
  have f: "focusableCleanup s = (i, w\<lparr>observers := observers w0\<rparr>)"
    using focusableCleanup_releases [OF bo a] Pair by simp
  obtain r d where rd: "releaseCapture (captured i) (refs i, doc w) = (r, d)"
    by (cases "releaseCapture (captured i) (refs i, doc w)")
  have c: "captureCleanup (focusableCleanup s)
             = (i\<lparr>refs := r\<rparr>, w\<lparr>observers := observers w0, doc := d\<rparr>)"
    using f rd by (simp add: captureCleanup_def)
  have u: "unmount s = (i\<lparr>refs := r\<lparr>rootNode := None\<rparr>\<rparr>,
                         w\<lparr>observers := observers w0, doc := d,
                           keydownListeners := removeAll h (keydownListeners w)\<rparr>)"
    using c inv by (simp add: unmount_def keyCleanup_def)
  from a inv have kl: "keydownListeners w = keydownListeners w0 @ [h]"
    by (auto simp add: acquired_iff)
  have rm: "removeAll h (keydownListeners w) = keydownListeners w0"
    using kl removeAll_fresh [OF bl inv(4)] by simp
  have nh: "h \<notin> set (keydownListeners w0)" using not_in_ids_below [OF bl inv(4)] .
  have no: "ob \<notin> set (observers w0)" using not_in_ids_below [OF bo inv(3)] .
  show ?thesis
    using u rm nh no inv
    by (simp add: dispatchKeydown_def mutationCallback_def)
qed

text \<open>
  C9. A FocusLock mounted on a window whose identities are all below its counter, taken
  through any renders with new props, mutation callbacks and keydowns: the run never
  throws, and after the unmount the keydown listeners and the connected observers of the
  window are exactly those from before the mount. A keydown delivered afterwards (Tab,
  Escape or any other key) leaves the event, the instance and the document as they are,
  and so does a mutation of the former root.
\<close>

theorem unmount_releases_everything:
  assumes "ids_below (fresh w0) (keydownListeners w0)"
      and "ids_below (fresh w0) (observers w0)"
  shows "\<exists>s. lifecycle query evs (mount query p root w0) = Inr s
           \<and> keydownListeners (snd (unmount s)) = keydownListeners w0
           \<and> observers (snd (unmount s)) = observers w0
           \<and> dispatchKeydown ev (unmount s) = Inr (ev, unmount s)
           \<and> mutationCallback query (unmount s) = unmount s"
proof -
  from lifecycle_acquired [OF assms(1) acquired_mount]
  obtain s where s: "lifecycle query evs (mount query p root w0) = Inr s" and a: "acquired w0 s"
    by blast
  from unmount_acquired [OF assms a] s show ?thesis by blast
qed

theorem unmount_releases_everything_witness:
  "ids_below 2 [0] \<and> ids_below 2 [1]
   \<and> (\<exists>s. lifecycle (\<lambda>r::nat. [1, 2])
              [Keydown \<lparr>key = ''Tab'', shiftKey = False, defaultPrevented = False\<rparr>,
               Rerender \<lparr>isLocked = False, autoFocusOnMount = True, returnFocusOnClose = False,
                          initialFocusRef = None, finalFocusRef = None\<rparr>,
               Mutation]
              (mount (\<lambda>r::nat. [1, 2])
                 \<lparr>isLocked = True, autoFocusOnMount = True, returnFocusOnClose = True,
                   initialFocusRef = None, finalFocusRef = None\<rparr> 0
                 \<lparr>doc = \<lparr>activeElement = Some 9, focusable = UNIV\<rparr>, keydownListeners = [0],
                   observers = [1], fresh = 2\<rparr>) = Inr s
          \<and> keydownListeners (snd (unmount s)) = [0]
          \<and> observers (snd (unmount s)) = [1]
          \<and> dispatchKeydown \<lparr>key = ''Tab'', shiftKey = True, defaultPrevented = False\<rparr> (unmount s)
              = Inr (\<lparr>key = ''Tab'', shiftKey = True, defaultPrevented = False\<rparr>, unmount s)
          \<and> mutationCallback (\<lambda>r::nat. [1, 2]) (unmount s) = unmount s)"
  using unmount_releases_everything [of
      "\<lparr>doc = \<lparr>activeElement = Some 9, focusable = UNIV\<rparr>, keydownListeners = [0],
         observers = [1], fresh = 2\<rparr>"
      "\<lambda>r::nat. [1, 2]"
      "[Keydown \<lparr>key = ''Tab'', shiftKey = False, defaultPrevented = False\<rparr>,
        Rerender \<lparr>isLocked = False, autoFocusOnMount = True, returnFocusOnClose = False,
                   initialFocusRef = None, finalFocusRef = None\<rparr>,
        Mutation]"
      "\<lparr>isLocked = True, autoFocusOnMount = True, returnFocusOnClose = True,
         initialFocusRef = None, finalFocusRef = None\<rparr>" 0
      "\<lparr>key = ''Tab'', shiftKey = True, defaultPrevented = False\<rparr>"]
  by (simp add: ids_below_def)

section \<open>Mount transition of the Modal\<close>

text \<open>The transition of a Modal does not depend on its \<open>transitionDuration\<close> prop.\<close>

lemma Modal_useMountTransition_ignores_duration:
  "Modal_useMountTransition (p\<lparr>transitionDuration := D\<rparr>) s = Modal_useMountTransition p s"
  by (simp add: Modal_useMountTransition_def)

text \<open>
  C2. The claim is that the opened state is reached, and the content detached, after the
  configured \<open>transitionDuration\<close>. The hook is called with the constant 200 whatever
  the prop is; only the style variable follows the prop. With \<open>transitionDuration\<close> 0
  (style variable 0): after opening, the opened state is not reached at once and not
  after 199 ms; after closing from the opened state, the content is still attached
  after 199 ms and goes at 200 ms. With \<open>transitionDuration\<close> 500 the opened state is
  there after 200 ms.
\<close>

theorem transition_ignores_configured_duration:
  "Modal_css_transition_duration
       \<lparr>isOpen = True, closeOnEsc = True, lockScroll = True, trapFocus = True,
         autoFocus = True, returnFocus = True, transitionDuration = Some 0\<rparr> = 0
   \<and> \<not> isTransitionClassApplied (Modal_useMountTransition
       \<lparr>isOpen = True, closeOnEsc = True, lockScroll = True, trapFocus = True,
         autoFocus = True, returnFocus = True, transitionDuration = Some 0\<rparr>
       \<lparr>state = Closed, timer = None\<rparr>)
   \<and> \<not> isTransitionClassApplied (elapse 199 (Modal_useMountTransition
       \<lparr>isOpen = True, closeOnEsc = True, lockScroll = True, trapFocus = True,
         autoFocus = True, returnFocus = True, transitionDuration = Some 0\<rparr>
       \<lparr>state = Closed, timer = None\<rparr>))
   \<and> isContentVisible (elapse 199 (Modal_useMountTransition
       \<lparr>isOpen = False, closeOnEsc = True, lockScroll = True, trapFocus = True,
         autoFocus = True, returnFocus = True, transitionDuration = Some 0\<rparr>
       \<lparr>state = Open, timer = None\<rparr>))
   \<and> \<not> isContentVisible (elapse 200 (Modal_useMountTransition
       \<lparr>isOpen = False, closeOnEsc = True, lockScroll = True, trapFocus = True,
         autoFocus = True, returnFocus = True, transitionDuration = Some 0\<rparr>
       \<lparr>state = Open, timer = None\<rparr>))
   \<and> isTransitionClassApplied (elapse 200 (Modal_useMountTransition
       \<lparr>isOpen = True, closeOnEsc = True, lockScroll = True, trapFocus = True,
         autoFocus = True, returnFocus = True, transitionDuration = Some 500\<rparr>
       \<lparr>state = Closed, timer = None\<rparr>))"
  by (simp add: Modal_css_transition_duration_def Modal_useMountTransition_def
      useMountTransition_def TRANSITION_DURATION_def elapse_def isContentVisible_def
      isTransitionClassApplied_def)

section \<open>Escape dismissal\<close>

lemma onEscape_iff:
  "onEscape c mr modals = (c \<and> modals \<noteq> [] \<and> mr = Some (last modals))"
proof (cases "modals = []")
  case True
  then show ?thesis by (simp add: onEscape_def item_def)
next
  case False
  then show ?thesis
    by (cases mr) (auto simp add: onEscape_def Let_def item_last)
qed

text \<open>
  C7. On an Escape keydown with any number of mounted Modal instances and any result of
  the overlay query: the close callback of an instance is invoked exactly when its
  \<open>closeOnEsc\<close> is on, the query result is not empty and the instance's root is its last
  entry. So an instance whose root is not the last entry ignores the key, and so does
  every instance with \<open>closeOnEsc\<close> off.
\<close>

theorem escape_closes_only_topmost:
  assumes "k < length ms"
  shows "(k \<in> set (escapeKeydown ms modals)) =
           (closeOnEsc (mprops (ms ! k)) \<and> modals \<noteq> [] \<and> modalRef (ms ! k) = Some (last modals))"
  using assms by (simp add: escapeKeydown_def Modal_onEscape_def onEscape_iff)

theorem escape_closes_only_topmost_witness:
  "1 \<in> set (escapeKeydown
       [\<lparr>mprops = \<lparr>isOpen = True, closeOnEsc = True, lockScroll = True, trapFocus = True,
                   autoFocus = True, returnFocus = True, transitionDuration = None\<rparr>,
         transition = \<lparr>state = Open, timer = None\<rparr>, modalRoot = (10::nat)\<rparr>,
        \<lparr>mprops = \<lparr>isOpen = True, closeOnEsc = True, lockScroll = True, trapFocus = True,
                   autoFocus = True, returnFocus = True, transitionDuration = None\<rparr>,
         transition = \<lparr>state = Open, timer = None\<rparr>, modalRoot = 20\<rparr>] [10, 20])
   \<and> 0 \<notin> set (escapeKeydown
       [\<lparr>mprops = \<lparr>isOpen = True, closeOnEsc = True, lockScroll = True, trapFocus = True,
                   autoFocus = True, returnFocus = True, transitionDuration = None\<rparr>,
         transition = \<lparr>state = Open, timer = None\<rparr>, modalRoot = (10::nat)\<rparr>,
        \<lparr>mprops = \<lparr>isOpen = True, closeOnEsc = True, lockScroll = True, trapFocus = True,
                   autoFocus = True, returnFocus = True, transitionDuration = None\<rparr>,
         transition = \<lparr>state = Open, timer = None\<rparr>, modalRoot = 20\<rparr>] [10, 20])"
  using escape_closes_only_topmost [of 1
       "[\<lparr>mprops = \<lparr>isOpen = True, closeOnEsc = True, lockScroll = True, trapFocus = True,
                   autoFocus = True, returnFocus = True, transitionDuration = None\<rparr>,
         transition = \<lparr>state = Open, timer = None\<rparr>, modalRoot = (10::nat)\<rparr>,
        \<lparr>mprops = \<lparr>isOpen = True, closeOnEsc = True, lockScroll = True, trapFocus = True,
                   autoFocus = True, returnFocus = True, transitionDuration = None\<rparr>,
         transition = \<lparr>state = Open, timer = None\<rparr>, modalRoot = 20\<rparr>]" "[10, 20]"]
    escape_closes_only_topmost [of 0
       "[\<lparr>mprops = \<lparr>isOpen = True, closeOnEsc = True, lockScroll = True, trapFocus = True,
                   autoFocus = True, returnFocus = True, transitionDuration = None\<rparr>,
         transition = \<lparr>state = Open, timer = None\<rparr>, modalRoot = (10::nat)\<rparr>,
        \<lparr>mprops = \<lparr>isOpen = True, closeOnEsc = True, lockScroll = True, trapFocus = True,
                   autoFocus = True, returnFocus = True, transitionDuration = None\<rparr>,
         transition = \<lparr>state = Open, timer = None\<rparr>, modalRoot = 20\<rparr>]" "[10, 20]"]
  by (simp add: modalRef_def isContentVisible_def)

text \<open>
  C10. A Modal whose content is not in the tree never invokes its close callback on
  Escape, whatever \<open>closeOnEsc\<close> is and whatever the overlay query returns: its root ref
  is \<open>null\<close>, and the last entry of the query is either an element or \<open>undefined\<close>.
\<close>

theorem escape_ignored_without_content:
  assumes "\<not> isContentVisible (transition m)"
  shows "\<not> Modal_onEscape m modals"
  using assms by (simp add: Modal_onEscape_def onEscape_iff modalRef_def)

theorem escape_ignored_without_content_witness:
  "\<not> isContentVisible \<lparr>state = Closed, timer = None\<rparr>
   \<and> \<not> Modal_onEscape
        \<lparr>mprops = \<lparr>isOpen = False, closeOnEsc = True, lockScroll = True, trapFocus = True,
                   autoFocus = True, returnFocus = True, transitionDuration = None\<rparr>,
         transition = \<lparr>state = Closed, timer = None\<rparr>, modalRoot = (10::nat)\<rparr> [20, 10]"
  using escape_ignored_without_content [of
        "\<lparr>mprops = \<lparr>isOpen = False, closeOnEsc = True, lockScroll = True, trapFocus = True,
                   autoFocus = True, returnFocus = True, transitionDuration = None\<rparr>,
         transition = \<lparr>state = Closed, timer = None\<rparr>, modalRoot = (10::nat)\<rparr>" "[20, 10]"]
  by (simp add: isContentVisible_def)

section \<open>Scroll lock\<close>

text \<open>When every commit changes one instance, no instance is removed from the tree and
  every instance locks scrolling, the marker is on exactly when an overlay root is
  attached.\<close>

lemma single_commit_keeps_marker:
  assumes "event_root ev \<in> locking" and "ev \<noteq> Removed (event_root ev)"
      and "noScroll pg = (overlays pg \<noteq> [])"
  shows "noScroll (commit locking [ev] pg) = (overlays (commit locking [ev] pg) \<noteq> [])"
proof (cases ev)
  case (Mounted r)
  with assms show ?thesis
    by (auto simp add: commit_def scrollLockEffect_def getOverlayElements_def Let_def)
next
  case (Shown r)
  with assms show ?thesis
    by (auto simp add: commit_def scrollLockEffect_def getOverlayElements_def Let_def)
next
  case (Hidden r)
  with assms show ?thesis
    by (auto simp add: commit_def scrollLockEffect_def getOverlayElements_def Let_def)
next
  case (Removed r)
  with assms show ?thesis by simp
qed

lemma single_commits_keep_marker:
  "list_all (\<lambda>ev. event_root ev \<in> locking \<and> ev \<noteq> Removed (event_root ev)) evs \<Longrightarrow>
     noScroll pg = (overlays pg \<noteq> []) \<Longrightarrow>
     noScroll (commits locking (map (\<lambda>ev. [ev]) evs) pg)
       = (overlays (commits locking (map (\<lambda>ev. [ev]) evs) pg) \<noteq> [])"
proof (induction evs arbitrary: pg)
  case Nil
  then show ?case by simp
next
  case (Cons ev evs)
  from Cons.prems
  have "noScroll (commit locking [ev] pg) = (overlays (commit locking [ev] pg) \<noteq> [])"
    by (simp add: single_commit_keeps_marker)
  with Cons.prems Cons.IH [of "commit locking [ev] pg"] show ?case by simp
qed

text \<open>
  C8. The claim is that the marker is on from the first content attached until the last
  is gone, and absent after the last closes. The effect sets the marker only when it
  reads an overlay count of exactly 1, and it has no cleanup. Two instances that lock
  scrolling, starting from a page with no overlay and no marker: when both contents are
  attached in one commit, both effects read a count of 2 and the marker is never set,
  and it is still off after one of the two has been detached; when an instance is
  removed from the tree while its content is attached, no effect runs and the marker
  stays on with no overlay left.
\<close>

theorem scroll_lock_marker_missed:
  "commits UNIV [[Shown 1, Shown 2]] \<lparr>overlays = [], noScroll = False\<rparr>
     = \<lparr>overlays = [1::nat, 2], noScroll = False\<rparr>
   \<and> commits UNIV [[Shown 1, Shown 2], [Hidden 2]] \<lparr>overlays = [], noScroll = False\<rparr>
     = \<lparr>overlays = [1::nat], noScroll = False\<rparr>
   \<and> commits UNIV [[Shown 1], [Removed 1]] \<lparr>overlays = [], noScroll = False\<rparr>
     = \<lparr>overlays = ([]::nat list), noScroll = True\<rparr>"
  by (simp add: commit_def scrollLockEffect_def getOverlayElements_def Let_def)

end
